theory Spec2Isabelle
  imports Complex_Main "HOL-Library.Sublist"
begin

section \<open>Python values shared by the two modules\<close>

text \<open>
  Exceptions are values. \<open>PypitError\<close> is what \<open>msgs.error\<close> raises; the other
  constructors are the built-in Python exceptions that the modelled code can raise, and
  numpy's \<open>AxisError\<close>.
\<close>

datatype error =
    ValueError string
  | KeyError string
  | IndexError
  | TypeError
  | AttributeError
  | IOError
  | AxisError
  | NameError string
  | PypitError string

text \<open>
  A float is a double, and the value of a finite double is a real number. The result of
  an arithmetic operation on doubles is the exact result rounded to a double; in
  \<open>TraceSlits\<close> the rounding is a parameter, \<open>rnd\<close>, so that what is proved holds whatever
  the rounding. \<open>double_of\<close> is the rounding itself, to the nearest double with ties to
  the even significand, for results below the overflow threshold; it is used to run the
  code on concrete inputs. nan and the infinities are not values of the model.
\<close>

definition round_even :: "real \<Rightarrow> int" where
  "round_even q =
     (let n = \<lfloor>q\<rfloor>; f = q - real_of_int n
      in if f < 1 / 2 then n else if 1 / 2 < f then n + 1 else if even n then n else n + 1)"

definition double_of :: "real \<Rightarrow> real" where
  "double_of x =
     (if x = 0 then 0
      else let u = 2 powr (real_of_int (max (- 1022) \<lfloor>log 2 \<bar>x\<bar>\<rfloor>) - 52)
           in u * real_of_int (round_even (x / u)))"

text \<open>What \<open>msgs.info\<close> and \<open>warnings.warn\<close> print.\<close>

datatype msg = Info string | Warning string

text \<open>
  A two-dimensional numpy array: its shape and its rows. The shape is kept beside the
  rows because an array with no rows still has a column count.
\<close>

datatype 'a ndarray = NDArray (shape0: nat) (shape1: nat) (rows: "'a list list")

definition wf_ndarray :: "'a ndarray \<Rightarrow> bool" where
  "wf_ndarray a = (length (rows a) = shape0 a \<and> list_all (\<lambda>r. length r = shape1 a) (rows a))"

text \<open>\<open>a[:, o]\<close>: IndexError when the column does not exist.\<close>

definition col_of :: "'a ndarray \<Rightarrow> nat \<Rightarrow> 'a list" where
  "col_of a j = map (\<lambda>r. r ! j) (rows a)"

definition column :: "'a ndarray \<Rightarrow> nat \<Rightarrow> error + 'a list" where
  "column a j = (if j < shape1 a then Inr (col_of a j) else Inl IndexError)"

text \<open>\<open>a[:, wok]\<close> with an index array \<open>wok\<close>.\<close>

definition take_columns :: "'a ndarray \<Rightarrow> nat list \<Rightarrow> error + 'a ndarray" where
  "take_columns a wok =
     (if list_all (\<lambda>j. j < shape1 a) wok
      then Inr (NDArray (shape0 a) (length wok) (map (\<lambda>r. map (\<lambda>j. r ! j) wok) (rows a)))
      else Inl IndexError)"

text \<open>\<open>np.min\<close>, \<open>np.max\<close>: ValueError on an empty array.\<close>

definition np_min :: "'a::linorder list \<Rightarrow> error + 'a" where
  "np_min xs = (case xs of [] \<Rightarrow> Inl (ValueError ''zero-size array'') | x # r \<Rightarrow> Inr (fold min r x))"

definition np_max :: "'a::linorder list \<Rightarrow> error + 'a" where
  "np_max xs = (case xs of [] \<Rightarrow> Inl (ValueError ''zero-size array'') | x # r \<Rightarrow> Inr (fold max r x))"

text \<open>
  \<open>np.median\<close>: the middle element of the sorted values, or the mean of the two middle
  ones, their rounded sum divided by two; \<open>None\<close> stands for the nan that numpy returns
  on an empty array.
\<close>

definition np_median :: "(real \<Rightarrow> real) \<Rightarrow> real list \<Rightarrow> real option" where
  "np_median rnd xs =
     (if xs = [] then None
      else let s = sort xs; n = length s in
        Some (if odd n then s ! (n div 2)
              else rnd (rnd (s ! (n div 2 - 1) + s ! (n div 2)) / 2)))"

text \<open>
  Elementwise subtraction of two one-dimensional arrays with numpy's broadcasting:
  equal lengths, or one of them of length one; anything else is a ValueError.
\<close>

definition np_sub :: "(real \<Rightarrow> real) \<Rightarrow> real list \<Rightarrow> real list \<Rightarrow> error + real list" where
  "np_sub rnd xs ys =
     (if length xs = length ys then Inr (map2 (\<lambda>x y. rnd (x - y)) xs ys)
      else if length xs = 1 then Inr (map (\<lambda>y. rnd (hd xs - y)) ys)
      else if length ys = 1 then Inr (map (\<lambda>x. rnd (x - hd ys)) xs)
      else Inl (ValueError ''operands could not be broadcast together''))"

text \<open>Python's \<open>int(x)\<close> on a float truncates toward zero.\<close>

definition py_int :: "real \<Rightarrow> int" where
  "py_int x = (if 0 \<le> x then \<lfloor>x\<rfloor> else \<lceil>x\<rceil>)"

text \<open>\<open>'{0:d}'.format(n)\<close> for a non-negative integer.\<close>

fun fmt_d :: "nat \<Rightarrow> string" where
  "fmt_d n = (if n < 10 then [char_of (48 + n)] else fmt_d (n div 10) @ [char_of (48 + n mod 10)])"

declare fmt_d.simps [simp del]

text \<open>Using an attribute that is still \<open>None\<close> as an array raises.\<close>

definition need :: "'a option \<Rightarrow> error + 'a" where
  "need v = (case v of None \<Rightarrow> Inl TypeError | Some a \<Rightarrow> Inr a)"

text \<open>Sequencing of computations that may raise.\<close>

definition bindE :: "error + 'a \<Rightarrow> ('a \<Rightarrow> error + 'b) \<Rightarrow> error + 'b" where
  "bindE m f = (case m of Inl e \<Rightarrow> Inl e | Inr v \<Rightarrow> f v)"

text \<open>
  Modelled from the spec: \<open>msgs.error\<close> of the module \<open>pypit.msgs\<close>, which is not among
  the sources. The spec calls every such report fatal to the current run; it is modelled
  as raising \<open>PypitError\<close> with the message.
\<close>

definition msgs_error :: "string \<Rightarrow> error + 'a" where
  "msgs_error m = Inl (PypitError m)"

section \<open>\<open>pypit/traceslits.py\<close>: the \<open>TraceSlits\<close> class\<close>

subsection \<open>Settings and state\<close>

text \<open>
  \<open>settings['trace']['slits']\<close>, with the keys of \<open>default_settings\<close>. The literal
  \<open>0.01\<close> is the double nearest to it.
\<close>

record slits_settings =
  single :: "real list"
  func :: string
  polyorder :: int
  diffpolyorder :: int
  fracignore :: real
  medrep :: int
  number :: int
  maxgap :: "int option"
  sigdetect :: real
  pad :: real
  pca_params :: "int list"
  pca_type :: string
  pca_extrapolate_pos :: int
  pca_extrapolate_neg :: int
  sobel_mode :: string

definition default_settings :: slits_settings where
  "default_settings = \<lparr> single = [], func = ''legendre'', polyorder = 3, diffpolyorder = 2,
     fracignore = double_of 0.01, medrep = 0, number = -1, maxgap = None, sigdetect = 20, pad = 0,
     pca_params = [3, 2, 1, 0, 0, 0], pca_type = ''pixel'', pca_extrapolate_pos = 0,
     pca_extrapolate_neg = 0, sobel_mode = ''nearest'' \<rparr>"

text \<open>The dict guiding multi-slit work, \<open>[left,right][xval][edge]\<close>, as nested dicts of arrays.\<close>

type_synonym tc_dict = "(string \<times> (string \<times> real list) list) list"

text \<open>
  The attributes of a \<open>TraceSlits\<close> object. \<open>msgs_out\<close> is not an attribute: it is the
  stream of messages the object has printed through \<open>msgs\<close>, kept in the state so that a
  claim about reporting can be stated.
\<close>

record TraceSlits =
  mstrace :: "real ndarray"
  pixlocn :: "(real \<times> real) ndarray"
  det :: "int option"
  ednum :: int
  binbpx :: "real ndarray"
  input_binbpx :: bool
  settings :: slits_settings
  lcen :: "real ndarray option"
  rcen :: "real ndarray option"
  tc_dict :: "tc_dict option"
  edgearr :: "int ndarray option"
  siglev :: "real ndarray option"
  steps :: "string list"
  extrapord :: "bool list option"
  pixcen :: "int ndarray option"
  pixwid :: "int list option"
  lordpix :: "int ndarray option"
  rordpix :: "int ndarray option"
  slitpix :: "int ndarray option"
  binarr :: "real ndarray"
  user_set :: "bool option"
  lmin :: "int option"
  lmax :: "int option"
  rmin :: "int option"
  rmax :: "int option"
  lcnt :: "int option"
  rcnt :: "int option"
  lcoeff :: "real ndarray option"
  lnmbrarr :: "real ndarray option"
  ldiffarr :: "real ndarray option"
  lwghtarr :: "real ndarray option"
  rcoeff :: "real ndarray option"
  rnmbrarr :: "real ndarray option"
  rdiffarr :: "real ndarray option"
  rwghtarr :: "real ndarray option"
  lcent :: "real ndarray option"
  rcent :: "real ndarray option"
  gord :: "real ndarray option"
  slitcen :: "real ndarray option"
  edgearrcp :: "int ndarray option"
  msgs_out :: "msg list"

subsection \<open>The collaborators that are not among the sources\<close>

text \<open>
  \<open>TraceSlits\<close> is a wrapper class: the image processing is done by the functions of
  \<open>pypit.artraceslits\<close>, \<open>pypit.arutils\<close>, \<open>pypit.arpixels\<close> and \<open>scipy.ndimage\<close>,
  none of which is among the sources. They are parameters of the model, one field per
  function, each taking the arguments the wrapper passes and returning what the wrapper
  reads back (an array the callee changes in place is returned as a result). Each may
  raise. The record also carries \<open>fl\<close>, the rounding of the arithmetic that the class
  does itself.
\<close>

text \<open>
  What \<open>fit_edges\<close> returns for one side: the coefficients, and per contributing point
  the fragment number, the fit residual and the fit weight. An attribute that is still
  \<open>None\<close> where a collaborator needs an array is modelled as \<open>TypeError\<close> at the call.
\<close>

type_synonym fit_arrays = "real ndarray \<times> real ndarray \<times> real ndarray \<times> real ndarray"

record collaborators =
  fl :: "real \<Rightarrow> real"
  uniform_filter :: "real ndarray \<Rightarrow> real ndarray"
  edgearr_from_binarr :: "real ndarray \<Rightarrow> real ndarray \<Rightarrow> int \<Rightarrow> string \<Rightarrow> real \<Rightarrow> int
     \<Rightarrow> error + (real ndarray \<times> int ndarray)"
  edgearr_from_user :: "nat \<times> nat \<Rightarrow> real \<Rightarrow> real \<Rightarrow> int \<Rightarrow> error + int ndarray"
  edgearr_add_left_right :: "int ndarray \<Rightarrow> real ndarray \<Rightarrow> real ndarray \<Rightarrow> int \<Rightarrow> int \<Rightarrow> int
     \<Rightarrow> error + (int ndarray \<times> int \<times> int)"
  add_user_edges :: "int ndarray \<Rightarrow> real ndarray option \<Rightarrow> tc_dict option \<Rightarrow> real list list
     \<Rightarrow> error + int ndarray"
  assign_slits :: "real ndarray \<Rightarrow> int ndarray \<Rightarrow> int \<Rightarrow> slits_settings \<Rightarrow> error + int ndarray"
  edgearr_final_left_right :: "int ndarray \<Rightarrow> int \<Rightarrow> real ndarray option
     \<Rightarrow> error + (int ndarray \<times> int \<times> int)"
  fit_edges :: "int ndarray \<Rightarrow> int \<Rightarrow> int \<Rightarrow> real ndarray \<Rightarrow> real ndarray \<Rightarrow> bool \<Rightarrow> int \<Rightarrow> string
     \<Rightarrow> error + (real ndarray \<times> real ndarray \<times> real ndarray \<times> real ndarray)"
  edgearr_ignore_orders :: "int ndarray \<Rightarrow> real \<Rightarrow> error + (int ndarray \<times> int \<times> int \<times> int \<times> int)"
  new_match_edges :: "int ndarray \<Rightarrow> int \<Rightarrow> error + (int ndarray \<times> int \<times> int)"
  edgearr_close_slits :: "real ndarray \<Rightarrow> int ndarray \<Rightarrow> int ndarray \<Rightarrow> int \<Rightarrow> slits_settings
     \<Rightarrow> error + int ndarray"
  edgearr_mslit_sync :: "int ndarray \<Rightarrow> tc_dict option \<Rightarrow> int \<Rightarrow> error + int ndarray"
  edgearr_tcrude :: "int ndarray \<Rightarrow> real ndarray option \<Rightarrow> int \<Rightarrow> error + (int ndarray \<times> tc_dict)"
  synchronize_edges :: "real ndarray \<Rightarrow> int ndarray \<Rightarrow> real ndarray \<Rightarrow> int \<Rightarrow> int \<Rightarrow> int
     \<Rightarrow> fit_arrays \<Rightarrow> fit_arrays \<Rightarrow> slits_settings
     \<Rightarrow> error + (real ndarray \<times> real ndarray \<times> real ndarray \<times> fit_arrays \<times> fit_arrays)"
  pca_order_slit_edges :: "real ndarray \<Rightarrow> int ndarray \<Rightarrow> real ndarray \<Rightarrow> real ndarray
     \<Rightarrow> real ndarray \<Rightarrow> real ndarray \<Rightarrow> real ndarray \<Rightarrow> real ndarray \<Rightarrow> real ndarray
     \<Rightarrow> (real \<times> real) ndarray \<Rightarrow> slits_settings
     \<Rightarrow> error + (real ndarray \<times> real ndarray \<times> bool list)"
  pca_pixel_slit_edges :: "real ndarray \<Rightarrow> int ndarray \<Rightarrow> fit_arrays \<Rightarrow> fit_arrays
     \<Rightarrow> real ndarray \<Rightarrow> real ndarray \<Rightarrow> real ndarray \<Rightarrow> slits_settings
     \<Rightarrow> error + (real ndarray \<times> real ndarray \<times> bool list)"
  func_val :: "real list \<Rightarrow> real list \<Rightarrow> string \<Rightarrow> real \<Rightarrow> real \<Rightarrow> error + real list"
  phys_to_pix :: "real ndarray \<Rightarrow> (real \<times> real) ndarray \<Rightarrow> int \<Rightarrow> error + int ndarray"
  core_slit_pixels :: "real ndarray \<Rightarrow> real ndarray \<Rightarrow> nat \<times> nat \<Rightarrow> real \<Rightarrow> error + int ndarray"

subsection \<open>Edge matching\<close>

text \<open>
  \<open>_match_edges\<close>: the counts come from \<open>new_match_edges\<close>, which relabels \<open>edgearr\<close> in
  place; counts that reach \<open>ednum\<close> are reported through \<open>msgs.error\<close>.
\<close>

definition match_edges :: "collaborators \<Rightarrow> TraceSlits \<Rightarrow> error + TraceSlits" where
  "match_edges c s =
     bindE (need (edgearr s)) (\<lambda>e.
     bindE (new_match_edges c e (ednum s)) (\<lambda>(e', l, r).
       let s1 = s\<lparr>edgearr := Some e', lcnt := Some l, rcnt := Some r\<rparr> in
       if l \<ge> ednum s \<or> r \<ge> ednum s
       then msgs_error ''Found more edges than allowed by ednum. Set ednum to a larger number.''
       else Inr (s1\<lparr>steps := steps s1 @ [''_match_edges'']\<rparr>)))"

subsection \<open>Trimming\<close>

text \<open>The two messages of \<open>_trim_slits\<close>, for the slit at index \<open>o\<close>.\<close>

definition msg_off_detector :: "nat \<Rightarrow> msg" where
  "msg_off_detector j = Info (''Slit '' @ fmt_d (j + 1) @ '' is off the detector - ignoring this slit'')"

definition msg_fracignore :: "nat \<Rightarrow> msg" where
  "msg_fracignore j = Info (''Slit '' @ fmt_d (j + 1) @ '' is less than fracignore - ignoring this slit'')"

text \<open>
  One pass of the loop body of \<open>_trim_slits\<close> for slit \<open>j\<close>: whether \<open>mask[j]\<close> is set,
  and the messages printed. A comparison with nan is false.
\<close>

definition trim_one :: "(real \<Rightarrow> real) \<Rightarrow> real ndarray \<Rightarrow> real ndarray option \<Rightarrow> nat \<Rightarrow> int \<Rightarrow> bool
    \<Rightarrow> nat \<Rightarrow> error + (bool \<times> msg list)" where
  "trim_one rnd L R ncols fracpix usefracpix j =
     bindE (column L j) (\<lambda>lcol.
     bindE (np_min lcol) (\<lambda>mn.
     bindE (if mn > real ncols then Inr (True, [msg_off_detector j])
            else bindE (bindE (need R) (\<lambda>R'. column R' j)) (\<lambda>rcol.
                 bindE (np_max rcol) (\<lambda>mx.
                   if mx < 0 then Inr (True, [msg_off_detector j]) else Inr (False, []))))
       (\<lambda>(m, out).
          if usefracpix then
            bindE (bindE (need R) (\<lambda>R'. column R' j)) (\<lambda>rcol.
            bindE (np_sub rnd rcol lcol) (\<lambda>d.
              if (case np_median rnd d of None \<Rightarrow> False | Some w \<Rightarrow> w < real_of_int fracpix)
              then Inr (True, out @ [msg_fracignore j])
              else Inr (m, out)))
          else Inr (m, out))))"

text \<open>The loop \<open>for o in range(nslit)\<close>: the mask and the messages, in order.\<close>

fun trim_loop :: "(real \<Rightarrow> real) \<Rightarrow> real ndarray \<Rightarrow> real ndarray option \<Rightarrow> nat \<Rightarrow> int \<Rightarrow> bool
    \<Rightarrow> nat list \<Rightarrow> error + (bool list \<times> msg list)" where
  "trim_loop rnd L R ncols fracpix usefracpix [] = Inr ([], [])"
| "trim_loop rnd L R ncols fracpix usefracpix (j # js) =
     bindE (trim_one rnd L R ncols fracpix usefracpix j) (\<lambda>(m, out).
     bindE (trim_loop rnd L R ncols fracpix usefracpix js) (\<lambda>(ms, outs).
       Inr (m # ms, out @ outs)))"

text \<open>\<open>np.where(mask == 0)[0]\<close>.\<close>

definition where_zero :: "bool list \<Rightarrow> nat list" where
  "where_zero msk = filter (\<lambda>j. \<not> msk ! j) [0..<length msk]"

text \<open>
  \<open>_trim_slits\<close>. \<open>fracpix\<close> is \<open>int\<close> of the product of the two numbers as doubles, that
  is of the rounded product.
\<close>

definition trim_slits :: "collaborators \<Rightarrow> bool \<Rightarrow> TraceSlits \<Rightarrow> error + TraceSlits" where
  "trim_slits c usefracpix s =
     (case lcen s of None \<Rightarrow> Inl AttributeError | Some L \<Rightarrow>
      let nslit = shape1 L;
          fracpix = py_int (fl c (fracignore (settings s) * real (shape1 (mstrace s))))
      in bindE (trim_loop (fl c) L (rcen s) (shape1 (mstrace s)) fracpix usefracpix [0..<nslit])
           (\<lambda>(msk, out).
              let wok = where_zero msk in
              bindE (take_columns L wok) (\<lambda>L'.
              bindE (bindE (need (rcen s)) (\<lambda>R. take_columns R wok)) (\<lambda>R'.
                Inr (s\<lparr>lcen := Some L', rcen := Some R',
                       steps := steps s @ [''_trim_slits''],
                       msgs_out := msgs_out s @ out\<rparr>)))))"

subsection \<open>The other methods\<close>

text \<open>Elementwise helpers on arrays. \<open>bcast\<close> is numpy's broadcasting along one axis.\<close>

definition map_ndarray :: "('a \<Rightarrow> 'b) \<Rightarrow> 'a ndarray \<Rightarrow> 'b ndarray" where
  "map_ndarray f a = NDArray (shape0 a) (shape1 a) (map (map f) (rows a))"









text \<open>
  \<open>make_binarr\<close>: the uniform filter of \<open>scipy.ndimage\<close> along the spectral axis, and
  \<open>__init__\<close>, which calls it after emptying \<open>steps\<close>. Every method records its own
  name in \<open>steps\<close> (\<open>inspect.stack()[0][3]\<close>).
\<close>

definition make_binarr :: "collaborators \<Rightarrow> TraceSlits \<Rightarrow> TraceSlits" where
  "make_binarr c s = s\<lparr>binarr := uniform_filter c (mstrace s), steps := steps s @ [''make_binarr'']\<rparr>"

definition init :: "collaborators \<Rightarrow> real ndarray \<Rightarrow> (real \<times> real) ndarray \<Rightarrow> real ndarray option
    \<Rightarrow> slits_settings option \<Rightarrow> int option \<Rightarrow> int \<Rightarrow> TraceSlits" where
  "init c mstrace0 pixlocn0 binbpx0 settings0 det0 ednum0 =
     make_binarr c
       \<lparr> mstrace = mstrace0, pixlocn = pixlocn0, det = det0, ednum = ednum0,
         binbpx = (case binbpx0 of None \<Rightarrow> map_ndarray (\<lambda>_. 0) mstrace0 | Some b \<Rightarrow> b),
         input_binbpx = (binbpx0 \<noteq> None),
         settings = (case settings0 of None \<Rightarrow> default_settings | Some st \<Rightarrow> st),
         lcen = None, rcen = None, tc_dict = None, edgearr = None, siglev = None, steps = [],
         extrapord = None, pixcen = None, pixwid = None, lordpix = None, rordpix = None,
         slitpix = None, binarr = mstrace0, user_set = None,
         lmin = None, lmax = None, rmin = None, rmax = None, lcnt = None, rcnt = None,
         lcoeff = None, lnmbrarr = None, ldiffarr = None, lwghtarr = None,
         rcoeff = None, rnmbrarr = None, rdiffarr = None, rwghtarr = None,
         lcent = None, rcent = None, gord = None, slitcen = None, edgearrcp = None,
         msgs_out = [] \<rparr>"




























subsection \<open>Writing the state and loading it back\<close>

text \<open>
  The two files of \<open>write\<close>: a FITS file, a list of named image planes, and a JSON file,
  a dict. \<open>astropy.io.fits\<close> and the JSON helpers of \<open>linetools\<close> are libraries; they
  are modelled as storing the planes and the dict as they are.
\<close>

datatype hdu_data =
    RealImage "real ndarray"
  | IntImage "int ndarray"
  | LocImage "(real \<times> real) ndarray"
  | NoData

type_synonym hdulist = "(string \<times> hdu_data) list"

datatype json_value =
    JSettings slits_settings
  | JTcDict tc_dict
  | JSteps "string list"

type_synonym json_dict = "(string \<times> json_value) list"

record filesystem =
  fits_files :: "string \<rightharpoonup> hdulist"
  json_files :: "string \<rightharpoonup> json_dict"

definition opt_hdu :: "string \<Rightarrow> 'a option \<Rightarrow> ('a \<Rightarrow> hdu_data) \<Rightarrow> hdulist" where
  "opt_hdu name v k = (case v of None \<Rightarrow> [] | Some a \<Rightarrow> [(name, k a)])"

definition write_hdulist :: "TraceSlits \<Rightarrow> hdulist" where
  "write_hdulist s =
     [(''MSTRACE'', RealImage (mstrace s))]
     @ opt_hdu ''EDGEARR'' (edgearr s) IntImage
     @ opt_hdu ''SIGLEV'' (siglev s) RealImage
     @ [(''PIXLOCN'', LocImage (pixlocn s))]
     @ (if input_binbpx s then [(''BINBPX'', RealImage (binbpx s))] else [])
     @ (case lcen s of None \<Rightarrow> []
        | Some L \<Rightarrow> [(''LCEN'', RealImage L),
                      (''RCEN'', case rcen s of None \<Rightarrow> NoData | Some R \<Rightarrow> RealImage R)])"

definition write_dict :: "TraceSlits \<Rightarrow> json_dict" where
  "write_dict s =
     [(''settings'', JSettings (settings s))]
     @ (case tc_dict s of None \<Rightarrow> [] | Some tc \<Rightarrow> [(''tc_dict'', JTcDict tc)])
     @ [(''steps'', JSteps (steps s))]"

text \<open>
  \<open>write\<close>. With \<open>lcen\<close> set and \<open>rcen\<close> still \<open>None\<close> the library is handed \<open>None\<close> as
  image data and writes a plane without data.
\<close>

definition write_m :: "string \<Rightarrow> TraceSlits \<Rightarrow> filesystem \<Rightarrow> filesystem \<times> TraceSlits" where
  "write_m rootname s fs =
     (fs\<lparr>fits_files := (fits_files fs)(rootname @ ''.fits'' \<mapsto> write_hdulist s),
         json_files := (json_files fs)(rootname @ ''.json'' \<mapsto> write_dict s)\<rparr>,
      s\<lparr>msgs_out := msgs_out s @
          [Info (''Writing TraceSlit arrays to '' @ rootname @ ''.fits''),
           Info (''Writing TraceSlit dict to '' @ rootname @ ''.json'')]\<rparr>)"

text \<open>
  \<open>hdul[names.index(name)].data\<close>: \<open>list.index\<close> raises ValueError for a missing name.
  \<open>d[key]\<close> raises KeyError for a missing key.
\<close>

definition hdu_by_name :: "hdulist \<Rightarrow> string \<Rightarrow> error + hdu_data" where
  "hdu_by_name hdul name =
     (case map_of hdul name of None \<Rightarrow> Inl (ValueError (name @ '' is not in list'')) | Some d \<Rightarrow> Inr d)"

definition dict_get :: "json_dict \<Rightarrow> string \<Rightarrow> error + json_value" where
  "dict_get d key = (case map_of d key of None \<Rightarrow> Inl (KeyError key) | Some v \<Rightarrow> Inr v)"

text \<open>A plane of another element type than the attribute it is loaded into is a TypeError here.\<close>

definition real_image :: "hdu_data \<Rightarrow> error + real ndarray" where
  "real_image d = (case d of RealImage a \<Rightarrow> Inr a | _ \<Rightarrow> Inl TypeError)"

definition opt_real_image :: "hdu_data \<Rightarrow> error + real ndarray option" where
  "opt_real_image d = (case d of RealImage a \<Rightarrow> Inr (Some a) | NoData \<Rightarrow> Inr None | _ \<Rightarrow> Inl TypeError)"

definition int_image :: "hdu_data \<Rightarrow> error + int ndarray" where
  "int_image d = (case d of IntImage a \<Rightarrow> Inr a | _ \<Rightarrow> Inl TypeError)"

definition loc_image :: "hdu_data \<Rightarrow> error + (real \<times> real) ndarray" where
  "loc_image d = (case d of LocImage a \<Rightarrow> Inr a | _ \<Rightarrow> Inl TypeError)"

definition has_name :: "hdulist \<Rightarrow> string \<Rightarrow> bool" where
  "has_name hdul name = (name \<in> set (map fst hdul))"

definition from_files :: "collaborators \<Rightarrow> filesystem \<Rightarrow> string \<Rightarrow> error + TraceSlits" where
  "from_files c fs rootname =
     (case fits_files fs (rootname @ ''.fits'') of None \<Rightarrow> Inl IOError | Some hdul \<Rightarrow>
      bindE (bindE (hdu_by_name hdul ''MSTRACE'') real_image) (\<lambda>mstrace0.
      bindE (bindE (hdu_by_name hdul ''PIXLOCN'') loc_image) (\<lambda>pixlocn0.
      bindE (if has_name hdul ''BINBPX''
             then bindE (bindE (hdu_by_name hdul ''BINBPX'') real_image) (\<lambda>b. Inr (Some b))
             else Inr None) (\<lambda>binbpx0.
      (case json_files fs (rootname @ ''.json'') of None \<Rightarrow> Inl IOError | Some ts_dict \<Rightarrow>
      bindE (dict_get ts_dict ''settings'') (\<lambda>st.
      bindE (case st of JSettings v \<Rightarrow> Inr v | _ \<Rightarrow> Inl TypeError) (\<lambda>settings0.
      let slf = init c mstrace0 pixlocn0 binbpx0 (Some settings0) None 100000 in
      bindE (dict_get ts_dict ''steps'') (\<lambda>sp.
      bindE (case sp of JSteps v \<Rightarrow> Inr v | _ \<Rightarrow> Inl TypeError) (\<lambda>steps0.
      bindE (if has_name hdul ''LCEN''
             then bindE (bindE (hdu_by_name hdul ''LCEN'') real_image) (\<lambda>L.
                  bindE (bindE (hdu_by_name hdul ''RCEN'') opt_real_image) (\<lambda>R.
                    Inr (slf\<lparr>steps := steps0, lcen := Some L, rcen := R\<rparr>)))
             else Inr (slf\<lparr>steps := steps0\<rparr>)) (\<lambda>s1.
      bindE (if has_name hdul ''EDGEARR''
             then bindE (bindE (hdu_by_name hdul ''EDGEARR'') int_image) (\<lambda>e.
                    Inr (s1\<lparr>edgearr := Some e\<rparr>))
             else Inr s1) (\<lambda>s2.
      bindE (if has_name hdul ''SIGLEV''
             then bindE (bindE (hdu_by_name hdul ''SIGLEV'') real_image) (\<lambda>g.
                    Inr (s2\<lparr>siglev := Some g\<rparr>))
             else Inr s2) (\<lambda>s3.
      bindE (dict_get ts_dict ''tc_dict'') (\<lambda>tv.
      bindE (case tv of JTcDict v \<Rightarrow> Inr v | _ \<Rightarrow> Inl TypeError) (\<lambda>tc.
        Inr (s3\<lparr>tc_dict := Some tc\<rparr>)))))))))))))))"

section \<open>\<open>pypeit/spectrographs/keck_deimos.py\<close>: the optical model of DEIMOS\<close>

subsection \<open>Calibration files\<close>

text \<open>
  What the code reads of a DEIMOS file: the header of the primary HDU, and the rows of
  the \<open>BluSlits\<close> table when the file has one.
\<close>

datatype hval = HInt int | HReal real | HStr string

record bluslit =
  dSlitId :: int
  slitX1 :: real
  slitY1 :: real
  slitX2 :: real
  slitY2 :: real
  slitX3 :: real
  slitY3 :: real
  slitX4 :: real
  slitY4 :: real

record deimos_file =
  header :: "(string \<times> hval) list"
  BluSlits :: "bluslit list option"

definition header_get :: "deimos_file \<Rightarrow> string \<Rightarrow> error + hval" where
  "header_get f key = (case map_of (header f) key of None \<Rightarrow> Inl (KeyError key) | Some v \<Rightarrow> Inr v)"

text \<open>\<open>v == n\<close> for a header value and an integer literal.\<close>

definition hval_is :: "hval \<Rightarrow> int \<Rightarrow> bool" where
  "hval_is v n = (v = HInt n \<or> v = HReal (real_of_int n))"

text \<open>A header value used in arithmetic.\<close>

definition hval_num :: "hval \<Rightarrow> error + real" where
  "hval_num v = (case v of HInt i \<Rightarrow> Inr (real_of_int i) | HReal r \<Rightarrow> Inr r | HStr _ \<Rightarrow> Inl TypeError)"

subsection \<open>Slit mask and grating\<close>

record SlitMask =
  corners :: "(real \<times> real) list list"
  slitid :: "int list"

record ReflectionGrating =
  ruling :: real
  tilt :: real
  roll :: real
  yaw :: real
  central_wave :: hval

text \<open>
  The classes of \<open>pypeit.spectrographs.slitmask\<close> and \<open>pypeit.spectrographs.opticalmodel\<close>
  are not among the sources: the slit centers of a mask, the ray trace of the optical
  model and the chip lookup of the detector map are parameters.
\<close>

record optics =
  center :: "SlitMask \<Rightarrow> (real \<times> real) list"
  mask_to_imaging_coordinates :: "ReflectionGrating \<Rightarrow> real list \<Rightarrow> real list \<Rightarrow> real option \<Rightarrow> int
     \<Rightarrow> error + (real list \<times> real list)"
  ccd_coordinates :: "real list \<Rightarrow> real list \<Rightarrow> error + (int list \<times> real list \<times> real list)"

text \<open>
  The four cached objects of the spectrograph. The optical model is a set of constants
  and the grating it holds; the detector map is a set of constants.
\<close>

record KeckDEIMOSSpectrograph =
  slitmask :: "SlitMask option"
  grating :: "ReflectionGrating option"
  optical_model :: "ReflectionGrating option"
  detector_map :: "unit option"

definition spectrograph_init :: KeckDEIMOSSpectrograph where
  "spectrograph_init = \<lparr> slitmask = None, grating = None, optical_model = None, detector_map = None \<rparr>"

type_synonym deimos_files = "string \<rightharpoonup> deimos_file"

definition fits_open :: "deimos_files \<Rightarrow> string \<Rightarrow> error + deimos_file" where
  "fits_open fs filename = (case fs filename of None \<Rightarrow> Inl IOError | Some f \<Rightarrow> Inr f)"

definition get_slitmask :: "deimos_files \<Rightarrow> string \<Rightarrow> KeckDEIMOSSpectrograph
    \<Rightarrow> error + (KeckDEIMOSSpectrograph \<times> SlitMask)" where
  "get_slitmask fs filename s =
     bindE (fits_open fs filename) (\<lambda>hdu.
       case BluSlits hdu of None \<Rightarrow> Inl (KeyError ''BluSlits'')
       | Some tab \<Rightarrow>
           let m = \<lparr> corners = map (\<lambda>r. [(slitX1 r, slitY1 r), (slitX2 r, slitY2 r),
                                          (slitX3 r, slitY3 r), (slitX4 r, slitY4 r)]) tab,
                     slitid = map dSlitId tab \<rparr>
           in Inr (s\<lparr>slitmask := Some m\<rparr>, m))"

text \<open>
  \<open>_grating_orientation\<close>: roll, yaw and tilt. The table is indexed by the slider and
  then by the ruling; a slider that is not a key raises KeyError before the tilt is used.
\<close>

definition orientation_coeffs :: "int \<Rightarrow> (int option \<Rightarrow> real list) option" where
  "orientation_coeffs slider =
     (if slider = 3 then Some (\<lambda>r.
        if r = Some 600 then [0.145, -0.008, 5.6 / 10000, -0.182]
        else if r = Some 831 then [0.143, 0.000, 5.6 / 10000, -0.182]
        else if r = Some 900 then [0.141, 0.000, 5.6 / 10000, -0.134]
        else if r = Some 1200 then [0.145, 0.055, 5.6 / 10000, -0.181]
        else [0.145, 0.000, 5.6 / 10000, -0.182])
      else if slider = 4 then Some (\<lambda>r.
        if r = Some 600 then [-0.065, 0.063, 6.9 / 10000, -0.298]
        else if r = Some 831 then [-0.034, 0.060, 6.9 / 10000, -0.196]
        else if r = Some 900 then [-0.064, 0.083, 6.9 / 10000, -0.277]
        else if r = Some 1200 then [-0.052, 0.122, 6.9 / 10000, -0.294]
        else [-0.050, 0.080, 6.9 / 10000, -0.250])
      else None)"

definition slider_key :: "hval \<Rightarrow> int option" where
  "slider_key v = (case v of HInt i \<Rightarrow> Some i
     | HReal r \<Rightarrow> (if r = real_of_int \<lfloor>r\<rfloor> then Some \<lfloor>r\<rfloor> else None)
     | HStr _ \<Rightarrow> None)"

definition grating_orientation :: "hval \<Rightarrow> real \<Rightarrow> hval \<Rightarrow> error + (real \<times> real \<times> real)" where
  "grating_orientation slider rul tlt =
     (if hval_is slider 2 \<and> py_int rul = 0 then Inr (0, 0, - 19.423)
      else if hval_is slider 2 then Inl (ValueError ''Ruling should be 0 if slider in position 2.'')
      else
        let r = (if py_int rul \<in> {600, 831, 900, 1200} then Some (py_int rul) else None) in
        case (case slider_key slider of None \<Rightarrow> None | Some k \<Rightarrow> orientation_coeffs k) of
          None \<Rightarrow> Inl (KeyError ''slider'')
        | Some tab \<Rightarrow>
            bindE (hval_num tlt) (\<lambda>t.
              Inr (tab r ! 0, tab r ! 1, t * (1 - tab r ! 2) + tab r ! 3)))"

text \<open>
  The ruling from the grating name: 0 for a mirror, otherwise the number spelt by the
  digits of the name (\<open>float('')\<close> raises ValueError), adjusted for the 1200 and 830
  gratings.
\<close>

definition digits_of :: "string \<Rightarrow> string" where
  "digits_of name = filter (\<lambda>ch. ch \<in> set ''0123456789'') name"

definition float_of_digits :: "string \<Rightarrow> real" where
  "float_of_digits ds = foldl (\<lambda>a ch. 10 * a + real (of_char ch - 48)) 0 ds"

definition ruling_of_name :: "hval \<Rightarrow> error + real" where
  "ruling_of_name v =
     (case v of
        HStr name \<Rightarrow>
          if sublist ''Mirror'' name then Inr 0
          else if digits_of name = [] then Inl (ValueError ''could not convert string to float'')
          else let r = float_of_digits (digits_of name) in
               Inr (if \<bar>r - 1200\<bar> < 0.5 then 1200.06 else if \<bar>r - 831\<bar> < 2 then 831.90 else r)
      | _ \<Rightarrow> Inl TypeError)"

text \<open>What \<open>get_grating\<close> computes from the file, before it stores it.\<close>

definition grating_of_file :: "deimos_file \<Rightarrow> error + ReflectionGrating option" where
  "grating_of_file hdu =
     bindE (header_get hdu ''GRATEPOS'') (\<lambda>slider.
     bindE (if hval_is slider 3
            then bindE (header_get hdu ''G3TLTWAV'') (\<lambda>w. bindE (header_get hdu ''G3TLTVAL'') (\<lambda>t. Inr (w, t)))
            else bindE (header_get hdu ''G4TLTWAV'') (\<lambda>w. bindE (header_get hdu ''G4TLTVAL'') (\<lambda>t. Inr (w, t))))
       (\<lambda>(cw, tlt).
     bindE (header_get hdu ''GRATENAM'') (\<lambda>name.
     bindE (ruling_of_name name) (\<lambda>rul.
     bindE (grating_orientation slider rul tlt) (\<lambda>(rl, yw, tl).
       Inr (if rul = 0 then None
            else Some \<lparr> ruling = rul, tilt = tl, roll = rl, yaw = yw, central_wave = cw \<rparr>))))))"

definition get_grating :: "deimos_files \<Rightarrow> string \<Rightarrow> KeckDEIMOSSpectrograph
    \<Rightarrow> error + (KeckDEIMOSSpectrograph \<times> ReflectionGrating option)" where
  "get_grating fs filename s =
     bindE (fits_open fs filename) (\<lambda>hdu.
     bindE (grating_of_file hdu) (\<lambda>g. Inr (s\<lparr>grating := g\<rparr>, g)))"

text \<open>
  \<open>mask_to_pixel_coordinates\<close>. The spectrograph is returned beside the result or the
  exception, since what the call has stored before raising stays stored.
\<close>

definition no_grating_error :: error where
  "no_grating_error = ValueError ''Must define a grating first; provide a file or use get_grating()''"

definition reset_from_file :: "deimos_files \<Rightarrow> bool \<Rightarrow> string option \<Rightarrow> KeckDEIMOSSpectrograph
    \<Rightarrow> KeckDEIMOSSpectrograph \<times> error option" where
  "reset_from_file fs no_coords filename s =
     (case filename of None \<Rightarrow> (s, None)
      | Some fn \<Rightarrow>
          (case (if no_coords
                 then (case get_slitmask fs fn s of Inl e \<Rightarrow> Inl e | Inr (s', _) \<Rightarrow> Inr s')
                 else Inr s) of
             Inl e \<Rightarrow> (s, Some e)
           | Inr s1 \<Rightarrow>
               (case get_grating fs fn s1 of Inl e \<Rightarrow> (s1, Some e) | Inr (s2, _) \<Rightarrow> (s2, None))))"

definition mask_to_pixel_coordinates :: "optics \<Rightarrow> deimos_files \<Rightarrow> real list option \<Rightarrow> real list option
    \<Rightarrow> real option \<Rightarrow> int \<Rightarrow> string option \<Rightarrow> KeckDEIMOSSpectrograph
    \<Rightarrow> KeckDEIMOSSpectrograph \<times> (error + (int list \<times> real list \<times> real list))" where
  "mask_to_pixel_coordinates oc fs x y wave ordr filename s =
     (if (x = None \<and> y \<noteq> None) \<or> (x \<noteq> None \<and> y = None)
      then (s, Inl (ValueError ''Must provide both x and y or neither to use slit mask.''))
      else
        case reset_from_file fs (x = None \<and> y = None) filename s of
          (s1, Some e) \<Rightarrow> (s1, Inl e)
        | (s2, None) \<Rightarrow>
            (case (if x = None \<and> y = None
                   then (case slitmask s2 of
                           None \<Rightarrow> Inl (ValueError
                             ''No coordinates; Provide them directly or instantiate slit mask.'')
                         | Some m \<Rightarrow> Inr (map fst (center oc m), map snd (center oc m)))
                   else Inr (the x, the y)) of
               Inl e \<Rightarrow> (s2, Inl e)
             | Inr (xs, ys) \<Rightarrow>
                 (case grating s2 of
                    None \<Rightarrow> (s2, Inl no_grating_error)
                  | Some g \<Rightarrow>
                      let s3 = s2\<lparr>optical_model := Some g\<rparr>;
                          s4 = s3\<lparr>detector_map := Some ()\<rparr>
                      in (s4, bindE (mask_to_imaging_coordinates oc g xs ys wave ordr)
                                (\<lambda>(x_img, y_img). ccd_coordinates oc x_img y_img)))))"

subsection \<open>Camera distortion\<close>

text \<open>
  \<open>scipy.interpolate.interp1d\<close> with its defaults, a library: the table is sorted by
  its abscissae when the object is built; a call interpolates linearly between the two
  neighbours of the argument and raises ValueError outside the table.
\<close>

record interp1d =
  ix :: "real list"
  iy :: "real list"

definition interp1d_init :: "real list \<Rightarrow> real list \<Rightarrow> error + interp1d" where
  "interp1d_init xs ys =
     (if length xs \<noteq> length ys \<or> length xs < 2
      then Inl (ValueError ''x and y arrays must be equal in length and have at least 2 entries'')
      else let t = sort_key fst (zip xs ys) in Inr \<lparr> ix = map fst t, iy = map snd t \<rparr>)"

definition searchsorted :: "real list \<Rightarrow> real \<Rightarrow> nat" where
  "searchsorted xs v = length (filter (\<lambda>t. t < v) xs)"

definition interp1d_call :: "interp1d \<Rightarrow> real \<Rightarrow> error + real" where
  "interp1d_call f v =
     (if v < hd (ix f) then Inl (ValueError ''A value in x_new is below the interpolation range.'')
      else if last (ix f) < v then Inl (ValueError ''A value in x_new is above the interpolation range.'')
      else
        let hi = max 1 (min (searchsorted (ix f) v) (length (ix f) - 1));
            lo = hi - 1;
            slope = (iy f ! hi - iy f ! lo) / (ix f ! hi - ix f ! lo)
        in Inr (slope * (v - ix f ! lo) + iy f ! lo))"

text \<open>\<open>np.linspace(a, b, n)\<close>.\<close>

definition linspace :: "real \<Rightarrow> real \<Rightarrow> nat \<Rightarrow> real list" where
  "linspace a b n = map (\<lambda>i. a + real i * ((b - a) / real (n - 1))) [0..<n]"

record DEIMOSCameraDistortion =
  c0 :: real
  c2 :: real
  c4 :: real
  c6 :: real
  interpolator :: interp1d

text \<open>\<open>remove_distortion\<close>, which reads only the four coefficients.\<close>

definition remove_distortion_c :: "real \<Rightarrow> real \<Rightarrow> real \<Rightarrow> real \<Rightarrow> real \<Rightarrow> real" where
  "remove_distortion_c k0 k2 k4 k6 x =
     (let x2 = x * x in x / (k0 + x2 * (k2 + x2 * (k4 + x2 * k6))))"

definition remove_distortion :: "DEIMOSCameraDistortion \<Rightarrow> real \<Rightarrow> real" where
  "remove_distortion d x = remove_distortion_c (c0 d) (c2 d) (c4 d) (c6 d) x"

text \<open>\<open>__init__\<close>: the coefficients, and the inverse tabulated on 1000 points of [-0.6, 0.6].\<close>

definition table_x :: "real list" where
  "table_x = linspace (- 0.6) 0.6 1000"

definition table_y :: "real list" where
  "table_y = map (remove_distortion_c 1 0.0457563 (- 0.3088123) (- 14.917)) table_x"

definition camera_distortion_init :: "error + DEIMOSCameraDistortion" where
  "camera_distortion_init =
     bindE (interp1d_init table_y table_x) (\<lambda>f.
       Inr \<lparr> c0 = 1, c2 = 0.0457563, c4 = - 0.3088123, c6 = - 14.917, interpolator = f \<rparr>)"

text \<open>
  The results of the calls on the selected values, or the first exception; and the
  assignment \<open>x[indx] = vals\<close> into an array of zeros.
\<close>

fun those_ok :: "(error + 'a) list \<Rightarrow> error + 'a list" where
  "those_ok [] = Inr []"
| "those_ok (r # rs) = bindE r (\<lambda>v. bindE (those_ok rs) (\<lambda>vs. Inr (v # vs)))"

fun scatter :: "bool list \<Rightarrow> real list \<Rightarrow> real list" where
  "scatter [] vals = []"
| "scatter (True # bs) (v # vals) = v # scatter bs vals"
| "scatter (True # bs) [] = 0 # scatter bs []"
| "scatter (False # bs) vals = 0 # scatter bs vals"

text \<open>
  \<open>apply_distortion\<close> on an array. The module never imports \<open>warnings\<close>, so the line
  that is to warn raises NameError; the zero fill after it is what a call does whose
  values are all inside the interval.
\<close>

definition apply_distortion :: "DEIMOSCameraDistortion \<Rightarrow> real list \<Rightarrow> error + real list" where
  "apply_distortion d y =
     (let indx = map (\<lambda>v. hd (ix (interpolator d)) < v \<and> v < last (ix (interpolator d))) y in
      bindE (if \<not> list_all (\<lambda>b. b) indx
             then Inl (NameError ''name warnings is not defined'') else Inr ()) (\<lambda>_.
      bindE (those_ok (map (interp1d_call (interpolator d)) (map fst (filter snd (zip y indx))))) (\<lambda>vals.
        Inr (scatter indx vals))))"

section \<open>Concrete inputs\<close>

text \<open>
  Stand-ins for the collaborators of \<open>TraceSlits\<close>, to run the wrappers on concrete
  inputs. They are not the algorithms of pypit: each returns its input or a constant,
  and \<open>new_match_edges\<close> counts the left and right pixels of the first row. The
  arithmetic is that of doubles.
\<close>

definition unit_array :: "real \<Rightarrow> real ndarray" where
  "unit_array v = NDArray 1 1 [[v]]"

definition stub_new_match_edges :: "int ndarray \<Rightarrow> int \<Rightarrow> error + (int ndarray \<times> int \<times> int)" where
  "stub_new_match_edges e n =
     (let r = (case rows e of [] \<Rightarrow> [] | r0 # _ \<Rightarrow> r0)
      in Inr (e, int (length (filter (\<lambda>v. v < 0) r)), int (length (filter (\<lambda>v. 0 < v) r))))"

definition stub_edgearr_from_user :: "nat \<times> nat \<Rightarrow> real \<Rightarrow> real \<Rightarrow> int \<Rightarrow> error + int ndarray" where
  "stub_edgearr_from_user shp ledge redge d =
     Inr (NDArray (fst shp) (snd shp)
            (replicate (fst shp)
               (map (\<lambda>j. if real j = ledge then - 200000 else if real j = redge then 200000 else 0)
                  [0..<snd shp])))"

definition stub_collaborators :: collaborators where
  "stub_collaborators =
     \<lparr> fl = double_of,
       uniform_filter = (\<lambda>a. a),
       edgearr_from_binarr = (\<lambda>b bp m mode sg n. Inr (b, map_ndarray (\<lambda>v. 0) b)),
       edgearr_from_user = stub_edgearr_from_user,
       edgearr_add_left_right = (\<lambda>e b bp l r n. Inr (e, l, r)),
       add_user_edges = (\<lambda>e sg tc us. Inr e),
       assign_slits = (\<lambda>b e lor st. Inr e),
       edgearr_final_left_right = (\<lambda>e n sg. Inr (e, 1, 1)),
       fit_edges = (\<lambda>e mn mx px py left po fn.
          Inr (unit_array (if left then 1 else 2), unit_array 0, unit_array 0, unit_array 0)),
       edgearr_ignore_orders = (\<lambda>e f. Inr (e, 1, 1, 1, 1)),
       new_match_edges = stub_new_match_edges,
       edgearr_close_slits = (\<lambda>b e ecp n st. Inr e),
       edgearr_mslit_sync = (\<lambda>e tc n. Inr e),
       edgearr_tcrude = (\<lambda>e sg n. Inr (e, [])),
       synchronize_edges = (\<lambda>b e px mn mx rmn lf rf st.
          Inr (NDArray 2 1 [[10], [20]], NDArray 2 1 [[11.25], [20.5]], unit_array 0, lf, rf)),
       pca_order_slit_edges = (\<lambda>b e lc rc g lco rco px sc loc st. Inr (unit_array 0, unit_array 1, [False])),
       pca_pixel_slit_edges = (\<lambda>b e lf rf lc rc px st. Inr (unit_array 0, unit_array 1, [False])),
       func_val = (\<lambda>co xint fn mn mx. Inr (map (\<lambda>_. sum_list co) xint)),
       phys_to_pix = (\<lambda>a loc ax. Inr (map_ndarray (\<lambda>v. \<lfloor>v + 1 / 2\<rfloor>) a)),
       core_slit_pixels = (\<lambda>L R shp pd. Inr (NDArray (fst shp) (snd shp)
                                             (replicate (fst shp) (replicate (snd shp) 0)))) \<rparr>"

text \<open>A trace image of two rows and four columns, and the object built on it.\<close>

definition example_mstrace :: "real ndarray" where
  "example_mstrace = NDArray 2 4 [[0, 5, 5, 0], [0, 5, 5, 0]]"

definition example_pixlocn :: "(real \<times> real) ndarray" where
  "example_pixlocn = NDArray 2 4 [[(0, 0), (0, 1), (0, 2), (0, 3)], [(1, 0), (1, 1), (1, 2), (1, 3)]]"

definition example_slits :: "slits_settings \<Rightarrow> TraceSlits" where
  "example_slits st = init stub_collaborators example_mstrace example_pixlocn None (Some st) (Some 1) 100000"

text \<open>An edge image with two left pixels in its first row, and an \<open>ednum\<close> of 2.\<close>

definition crowded_slits :: TraceSlits where
  "crowded_slits = (example_slits default_settings)
     \<lparr>ednum := 2, edgearr := Some (NDArray 2 4 [[- 4, - 5, 4, 0], [- 4, - 5, 4, 0]])\<rparr>"

text \<open>
  An object with given trace image, settings and edge curves, as \<open>_pca\<close> leaves it.
\<close>

definition slits_with :: "real ndarray \<Rightarrow> slits_settings \<Rightarrow> real ndarray \<Rightarrow> real ndarray \<Rightarrow> TraceSlits" where
  "slits_with img st L R =
     (init stub_collaborators img example_pixlocn None (Some st) (Some 1) 100000)
       \<lparr>lcen := Some L, rcen := Some R\<rparr>"

text \<open>
  A detector of 150 columns with one slit of width 1.25: below 0.01 times the detector
  width, which is 1.5, and not below its integer part.
\<close>

definition narrow_slits :: TraceSlits where
  "narrow_slits = slits_with (NDArray 1 150 [replicate 150 1]) default_settings
     (NDArray 1 1 [[10]]) (NDArray 1 1 [[11.25]])"

text \<open>A detector of 150 columns with a slit of width 1.25 and a slit of width 0.5.\<close>

definition two_slits :: TraceSlits where
  "two_slits = slits_with (NDArray 1 150 [replicate 150 1]) default_settings
     (NDArray 1 2 [[10, 20]]) (NDArray 1 2 [[11.25, 20.5]])"


text \<open>
  Stand-ins for the optical model, and a calibration file taken with the mirror on
  slider 2, which has no slit table.
\<close>

definition stub_optics :: optics where
  "stub_optics =
     \<lparr> center = (\<lambda>m. map (\<lambda>cs. (sum_list (map fst cs) / 4, sum_list (map snd cs) / 4)) (corners m)),
       mask_to_imaging_coordinates = (\<lambda>g xs ys w n. Inr (xs, ys)),
       ccd_coordinates = (\<lambda>xi yi. Inr (map (\<lambda>_. 1) xi, xi, yi)) \<rparr>"






section \<open>Statements of the specification\<close>

text \<open>
  The criterion of the specification for dropping a slit, on the two columns of the
  slit: the left edge wholly beyond the detector width, the right edge wholly below
  pixel 0, or, when the check is enabled, a median width below the threshold. The
  threshold is a parameter; the widths and their median are the doubles the code
  computes.
\<close>

definition spec_drop :: "(real \<Rightarrow> real) \<Rightarrow> real \<Rightarrow> real \<Rightarrow> bool \<Rightarrow> real list \<Rightarrow> real list \<Rightarrow> bool" where
  "spec_drop rnd width thresh usefracpix lcol rcol =
     (width < Min (set lcol) \<or> Max (set rcol) < 0 \<or>
      (usefracpix \<and> (case np_median rnd (map2 (\<lambda>r l. rnd (r - l)) rcol lcol) of
                        None \<Rightarrow> False | Some w \<Rightarrow> w < thresh)))"




text \<open>
  The width threshold \<open>_trim_slits\<close> compares with, in whole pixels, and the slits
  that survive the criterion with that threshold.
\<close>

definition fracpix_of :: "collaborators \<Rightarrow> TraceSlits \<Rightarrow> int" where
  "fracpix_of c s = py_int (fl c (fracignore (settings s) * real (shape1 (mstrace s))))"

definition kept_slits :: "collaborators \<Rightarrow> bool \<Rightarrow> TraceSlits \<Rightarrow> real ndarray \<Rightarrow> real ndarray \<Rightarrow> nat list" where
  "kept_slits c u s L R =
     filter (\<lambda>j. \<not> spec_drop (fl c) (real (shape1 (mstrace s))) (real_of_int (fracpix_of c s)) u
                     (col_of L j) (col_of R j)) [0..<shape1 L]"

text \<open>The messages of one pass of the loop of \<open>_trim_slits\<close>, for well-shaped arrays.\<close>

definition slit_msgs :: "(real \<Rightarrow> real) \<Rightarrow> real ndarray \<Rightarrow> real ndarray \<Rightarrow> nat \<Rightarrow> int \<Rightarrow> bool \<Rightarrow> nat
    \<Rightarrow> msg list" where
  "slit_msgs rnd L R ncols fracpix u j =
     (if real ncols < Min (set (col_of L j)) \<or> Max (set (col_of R j)) < 0 then [msg_off_detector j] else [])
     @ (if u \<and> (case np_median rnd (map2 (\<lambda>r l. rnd (r - l)) (col_of R j) (col_of L j)) of
                        None \<Rightarrow> False | Some w \<Rightarrow> w < real_of_int fracpix) then [msg_fracignore j] else [])"

section \<open>Properties of \<open>TraceSlits\<close>\<close>

lemma bindE_Inr [simp]: "bindE (Inr v) f = f v"
  by (simp add: bindE_def)

lemma bindE_Inl [simp]: "bindE (Inl e) f = Inl e"
  by (simp add: bindE_def)

lemma need_Some [simp]: "need (Some v) = Inr v"
  by (simp add: need_def)

lemma need_None [simp]: "need None = Inl TypeError"
  by (simp add: need_def)

lemma bindE_eq_Inr: "bindE m f = Inr r \<longleftrightarrow> (\<exists>v. m = Inr v \<and> f v = Inr r)"
  by (cases m) simp_all

text \<open>
  C2. Whenever the count of left fragments or of right fragments that
  \<open>new_match_edges\<close> returns reaches or exceeds \<open>ednum\<close>, \<open>_match_edges\<close> raises the
  fatal error; otherwise it succeeds, storing the relabelled edge image and the two
  counts and recording its step.
\<close>

theorem match_edges_overflow_guard:
  assumes "edgearr s = Some e"
    and "new_match_edges c e (ednum s) = Inr (e', l, r)"
  shows "(if ednum s \<le> l \<or> ednum s \<le> r
          then match_edges c s =
                 Inl (PypitError ''Found more edges than allowed by ednum. Set ednum to a larger number.'')
          else match_edges c s =
                 Inr (s\<lparr>edgearr := Some e', lcnt := Some l, rcnt := Some r,
                        steps := steps s @ [''_match_edges'']\<rparr>))"
  using assms by (simp add: match_edges_def msgs_error_def)

theorem match_edges_overflow_guard_witness:
  "edgearr crowded_slits = Some (NDArray 2 4 [[- 4, - 5, 4, 0], [- 4, - 5, 4, 0]])
   \<and> new_match_edges stub_collaborators (NDArray 2 4 [[- 4, - 5, 4, 0], [- 4, - 5, 4, 0]]) (ednum crowded_slits)
       = Inr (NDArray 2 4 [[- 4, - 5, 4, 0], [- 4, - 5, 4, 0]], 2, 1)
   \<and> match_edges stub_collaborators crowded_slits =
       Inl (PypitError ''Found more edges than allowed by ednum. Set ednum to a larger number.'')"
proof -
  have a: "edgearr crowded_slits = Some (NDArray 2 4 [[- 4, - 5, 4, 0], [- 4, - 5, 4, 0]])"
    by (simp add: crowded_slits_def)
  have n: "ednum crowded_slits = 2"
    by (simp add: crowded_slits_def)
  have b: "new_match_edges stub_collaborators (NDArray 2 4 [[- 4, - 5, 4, 0], [- 4, - 5, 4, 0]]) (ednum crowded_slits)
       = Inr (NDArray 2 4 [[- 4, - 5, 4, 0], [- 4, - 5, 4, 0]], 2, 1)"
    by (simp add: stub_collaborators_def stub_new_match_edges_def Let_def)
  from match_edges_overflow_guard [OF a b] n show ?thesis
    using a b by simp
qed

subsection \<open>Rounding to a double\<close>

lemma double_of_binade:
  assumes "2 powr real_of_int e \<le> \<bar>x\<bar>" "\<bar>x\<bar> < 2 powr (real_of_int e + 1)" "- 1022 \<le> e"
  shows "double_of x = 2 powr (real_of_int e - 52) * real_of_int (round_even (x / 2 powr (real_of_int e - 52)))"
proof -
  have pos: "0 < \<bar>x\<bar>"
    using assms(1) by (smt (verit) powr_gt_zero)
  have "\<lfloor>log 2 \<bar>x\<bar>\<rfloor> = e"
    using assms(1,2) pos by (subst floor_log_eq_powr_iff) (auto simp: add.commute)
  with pos assms(3) show ?thesis
    by (simp add: double_of_def Let_def max_def)
qed

lemma double_of_hundredth: "double_of (1 / 100) = 5764607523034235 / 576460752303423488"
  using double_of_binade [of "- 7" "1 / 100"]
  by (simp add: round_even_def Let_def powr_neg_numeral)

lemma double_of_fracpix_150: "double_of (432345564227567625 / 288230376151711744) = 3 / 2"
  using double_of_binade [of 0 "432345564227567625 / 288230376151711744"]
  by (simp add: round_even_def Let_def powr_neg_numeral)

lemma double_of_width_a: "double_of (5 / 4) = 5 / 4"
  using double_of_binade [of 0 "5 / 4"]
  by (simp add: round_even_def Let_def powr_neg_numeral)

lemma double_of_width_b: "double_of (1 / 2) = 1 / 2"
  using double_of_binade [of "- 1" "1 / 2"]
  by (simp add: round_even_def Let_def powr_neg_numeral powr_minus)

subsection \<open>Trimming\<close>

lemma np_min_Min: "xs \<noteq> [] \<Longrightarrow> np_min xs = Inr (Min (set xs))"
proof (cases xs)
  case (Cons a r)
  then show ?thesis
    using Min.set_eq_fold [of a r] by (simp add: np_min_def)
qed simp

lemma np_max_Max: "xs \<noteq> [] \<Longrightarrow> np_max xs = Inr (Max (set xs))"
proof (cases xs)
  case (Cons a r)
  then show ?thesis
    using Max.set_eq_fold [of a r] by (simp add: np_max_def)
qed simp

lemma trim_one_eq:
  assumes "j < shape1 L" "shape1 R = shape1 L" "length (rows L) = length (rows R)" "rows L \<noteq> []"
  shows "trim_one rnd L (Some R) ncols fracpix u j =
     Inr (spec_drop rnd (real ncols) (real_of_int fracpix) u (col_of L j) (col_of R j),
          slit_msgs rnd L R ncols fracpix u j)"
proof -
  have l: "col_of L j \<noteq> []" and r: "col_of R j \<noteq> []" 
    using assms by (auto simp: col_of_def)
  have len: "length (col_of R j) = length (col_of L j)"
    using assms by (simp add: col_of_def)
  show ?thesis
    using assms len
    by (auto simp: trim_one_def column_def np_min_Min [OF l] np_max_Max [OF r] np_sub_def
        spec_drop_def slit_msgs_def split: option.splits)
qed

lemma trim_loop_eq:
  assumes "\<forall>j\<in>set js. j < shape1 L" "shape1 R = shape1 L" "length (rows L) = length (rows R)" "rows L \<noteq> []"
  shows "trim_loop rnd L (Some R) ncols fracpix u js =
     Inr (map (\<lambda>j. spec_drop rnd (real ncols) (real_of_int fracpix) u (col_of L j) (col_of R j)) js,
          concat (map (slit_msgs rnd L R ncols fracpix u) js))"
  using assms by (induction js) (simp_all add: trim_one_eq)

lemma where_zero_map: "where_zero (map d [0..<n]) = filter (\<lambda>j. \<not> d j) [0..<n]"
  by (auto simp: where_zero_def intro: filter_cong)

lemma trim_slits_eq:
  assumes "lcen s = Some L" "rcen s = Some R" "wf_ndarray L" "wf_ndarray R"
    "shape0 R = shape0 L" "shape1 R = shape1 L" "0 < shape0 L"
  shows "trim_slits c u s =
     Inr (s\<lparr>lcen := Some (NDArray (shape0 L) (length (kept_slits c u s L R))
                            (map (\<lambda>r. map (\<lambda>j. r ! j) (kept_slits c u s L R)) (rows L))),
            rcen := Some (NDArray (shape0 R) (length (kept_slits c u s L R))
                            (map (\<lambda>r. map (\<lambda>j. r ! j) (kept_slits c u s L R)) (rows R))),
            steps := steps s @ [''_trim_slits''],
            msgs_out := msgs_out s @
              concat (map (slit_msgs (fl c) L R (shape1 (mstrace s)) (fracpix_of c s) u) [0..<shape1 L])\<rparr>)"
proof -
  have len: "length (rows L) = length (rows R)" and ne: "rows L \<noteq> []"
    using assms by (auto simp: wf_ndarray_def)
  have loop: "trim_loop (fl c) L (Some R) (shape1 (mstrace s)) (fracpix_of c s) u [0..<shape1 L] =
     Inr (map (\<lambda>j. spec_drop (fl c) (real (shape1 (mstrace s))) (real_of_int (fracpix_of c s)) u (col_of L j) (col_of R j)) [0..<shape1 L],
          concat (map (slit_msgs (fl c) L R (shape1 (mstrace s)) (fracpix_of c s) u) [0..<shape1 L]))"
    by (rule trim_loop_eq) (use assms len ne in auto)
  have k: "where_zero (map (\<lambda>j. spec_drop (fl c) (real (shape1 (mstrace s))) (real_of_int (fracpix_of c s)) u (col_of L j) (col_of R j)) [0..<shape1 L])
      = kept_slits c u s L R"
    by (simp add: where_zero_map kept_slits_def)
  have inL: "list_all (\<lambda>j. j < shape1 L) (kept_slits c u s L R)"
    by (simp add: kept_slits_def list_all_iff)
  have inR: "list_all (\<lambda>j. j < shape1 R) (kept_slits c u s L R)"
    using inL assms by simp
  show ?thesis
    using assms(1,2) loop k inL inR
    by (simp add: trim_slits_def fracpix_of_def [symmetric] Let_def take_columns_def)
qed

text \<open>
  C3, as amended. On edge arrays of one shape with at least one row, \<open>_trim_slits\<close>
  returns, and the slits it keeps are those for which none of the three conditions
  holds, where the third compares the median width with \<open>int(fracignore * ncols)\<close>, the
  product of the two doubles truncated to whole pixels: the columns of \<open>lcen\<close> and \<open>rcen\<close>
  become the kept columns in their order, a slit off the detector is reported by the
  off-detector message with its index, and a slit that is too narrow by the fracignore
  message with its index. This holds whatever the rounding of the arithmetic.
\<close>

theorem trim_slits_drops:
  assumes "lcen s = Some L" "rcen s = Some R" "wf_ndarray L" "wf_ndarray R"
    "shape0 R = shape0 L" "shape1 R = shape1 L" "0 < shape0 L"
  shows "\<exists>out. trim_slits c u s =
     Inr (s\<lparr>lcen := Some (NDArray (shape0 L) (length (kept_slits c u s L R))
                            (map (\<lambda>r. map (\<lambda>j. r ! j) (kept_slits c u s L R)) (rows L))),
            rcen := Some (NDArray (shape0 R) (length (kept_slits c u s L R))
                            (map (\<lambda>r. map (\<lambda>j. r ! j) (kept_slits c u s L R)) (rows R))),
            steps := steps s @ [''_trim_slits''],
            msgs_out := msgs_out s @ out\<rparr>)
     \<and> (\<forall>j<shape1 L. real (shape1 (mstrace s)) < Min (set (col_of L j)) \<or> Max (set (col_of R j)) < 0
            \<longrightarrow> msg_off_detector j \<in> set out)
     \<and> (\<forall>j<shape1 L. u \<and> (case np_median (fl c) (map2 (\<lambda>r l. fl c (r - l)) (col_of R j) (col_of L j)) of
                              None \<Rightarrow> False | Some w \<Rightarrow> w < real_of_int (fracpix_of c s))
            \<longrightarrow> msg_fracignore j \<in> set out)"
proof (intro exI conjI)
  show "trim_slits c u s = Inr (s\<lparr>lcen := Some (NDArray (shape0 L) (length (kept_slits c u s L R))
                            (map (\<lambda>r. map (\<lambda>j. r ! j) (kept_slits c u s L R)) (rows L))),
            rcen := Some (NDArray (shape0 R) (length (kept_slits c u s L R))
                            (map (\<lambda>r. map (\<lambda>j. r ! j) (kept_slits c u s L R)) (rows R))),
            steps := steps s @ [''_trim_slits''],
            msgs_out := msgs_out s @
              concat (map (slit_msgs (fl c) L R (shape1 (mstrace s)) (fracpix_of c s) u) [0..<shape1 L])\<rparr>)"
    by (rule trim_slits_eq [OF assms])
next
  show "\<forall>j<shape1 L. real (shape1 (mstrace s)) < Min (set (col_of L j)) \<or> Max (set (col_of R j)) < 0
            \<longrightarrow> msg_off_detector j \<in> set (concat (map (slit_msgs (fl c) L R (shape1 (mstrace s)) (fracpix_of c s) u) [0..<shape1 L]))"
    by (auto simp: slit_msgs_def intro!: bexI)
next
  show "\<forall>j<shape1 L. u \<and> (case np_median (fl c) (map2 (\<lambda>r l. fl c (r - l)) (col_of R j) (col_of L j)) of
                              None \<Rightarrow> False | Some w \<Rightarrow> w < real_of_int (fracpix_of c s))
            \<longrightarrow> msg_fracignore j \<in> set (concat (map (slit_msgs (fl c) L R (shape1 (mstrace s)) (fracpix_of c s) u) [0..<shape1 L]))"
    by (auto simp: slit_msgs_def intro!: bexI)
qed

lemma upt_two: "[0..<2] = [0, Suc 0]"
  by (simp add: upt_rec numeral_2_eq_2)

lemma stub_fl [simp]: "fl stub_collaborators = double_of"
  by (simp add: stub_collaborators_def)

lemma two_slits_fields:
  "lcen two_slits = Some (NDArray 1 2 [[10, 20]])"
  "rcen two_slits = Some (NDArray 1 2 [[11.25, 20.5]])"
  "shape1 (mstrace two_slits) = 150"
  "fracignore (settings two_slits) = 5764607523034235 / 576460752303423488"
  by (simp_all add: two_slits_def slits_with_def init_def make_binarr_def default_settings_def
      double_of_hundredth)

lemma median_single: "np_median rnd [x] = Some x"
  by (simp add: np_median_def)

lemma fracpix_two_slits: "fracpix_of stub_collaborators two_slits = 1"
  by (simp add: fracpix_of_def two_slits_fields py_int_def double_of_fracpix_150)

text \<open>Of two slits of widths 1.25 and 0.5 on 150 columns, the second is dropped and reported.\<close>

theorem trim_slits_drops_witness:
  "lcen two_slits = Some (NDArray 1 2 [[10, 20]])
   \<and> rcen two_slits = Some (NDArray 1 2 [[11.25, 20.5]])
   \<and> wf_ndarray (NDArray 1 2 [[10, 20 :: real]])
   \<and> wf_ndarray (NDArray 1 2 [[11.25, 20.5 :: real]])
   \<and> (\<exists>out. trim_slits stub_collaborators True two_slits =
         Inr (two_slits\<lparr>lcen := Some (NDArray 1 1 [[10]]), rcen := Some (NDArray 1 1 [[11.25]]),
                steps := steps two_slits @ [''_trim_slits''],
                msgs_out := msgs_out two_slits @ out\<rparr>)
        \<and> msg_fracignore 1 \<in> set out)"
proof -
  let ?L = "NDArray 1 2 [[10, 20 :: real]]" and ?R = "NDArray 1 2 [[11.25, 20.5 :: real]]"
  let ?c = stub_collaborators
  have wf: "wf_ndarray ?L" "wf_ndarray ?R"
    by (simp_all add: wf_ndarray_def)
  note fp = fracpix_two_slits
  have k: "kept_slits ?c True two_slits ?L ?R = [0]"
    by (simp add: kept_slits_def fp two_slits_fields upt_two spec_drop_def col_of_def median_single
        double_of_width_a double_of_width_b)
  from trim_slits_drops [OF two_slits_fields(1,2) wf, of ?c True]
  obtain out where t: "trim_slits ?c True two_slits =
     Inr (two_slits\<lparr>lcen := Some (NDArray (shape0 ?L) (length (kept_slits ?c True two_slits ?L ?R))
                            (map (\<lambda>r. map (\<lambda>j. r ! j) (kept_slits ?c True two_slits ?L ?R)) (rows ?L))),
            rcen := Some (NDArray (shape0 ?R) (length (kept_slits ?c True two_slits ?L ?R))
                            (map (\<lambda>r. map (\<lambda>j. r ! j) (kept_slits ?c True two_slits ?L ?R)) (rows ?R))),
            steps := steps two_slits @ [''_trim_slits''],
            msgs_out := msgs_out two_slits @ out\<rparr>)"
    and m: "\<forall>j<shape1 ?L. True \<and> (case np_median (fl ?c) (map2 (\<lambda>r l. fl ?c (r - l)) (col_of ?R j) (col_of ?L j)) of
                              None \<Rightarrow> False | Some w \<Rightarrow> w < real_of_int (fracpix_of ?c two_slits))
            \<longrightarrow> msg_fracignore j \<in> set out"
    by auto
  have "msg_fracignore 1 \<in> set out"
    using m [rule_format, of 1] by (simp add: fp col_of_def median_single double_of_width_b)
  with t k wf two_slits_fields show ?thesis
    by auto
qed

lemma narrow_slits_fields:
  "lcen narrow_slits = Some (NDArray 1 1 [[10]])"
  "rcen narrow_slits = Some (NDArray 1 1 [[11.25]])"
  "shape1 (mstrace narrow_slits) = 150"
  "fracignore (settings narrow_slits) = 5764607523034235 / 576460752303423488"
  by (simp_all add: narrow_slits_def slits_with_def init_def make_binarr_def default_settings_def
      double_of_hundredth)

text \<open>
  C3 as stated fails: a slit of median width 1.25 on 150 columns is below
  \<open>fracignore * ncols\<close>, which is 1.5 and a little more for the double 0.01, and
  \<open>_trim_slits\<close> keeps it, without a message.
\<close>

theorem trim_slits_fraction_counterexample:
  "spec_drop double_of (real (shape1 (mstrace narrow_slits)))
      (fracignore (settings narrow_slits) * real (shape1 (mstrace narrow_slits))) True [10] [11.25]
   \<and> trim_slits stub_collaborators True narrow_slits =
       Inr (narrow_slits\<lparr>lcen := Some (NDArray 1 1 [[10]]), rcen := Some (NDArray 1 1 [[11.25]]),
              steps := steps narrow_slits @ [''_trim_slits''],
              msgs_out := msgs_out narrow_slits @ []\<rparr>)"
proof -
  let ?L = "NDArray 1 1 [[10 :: real]]" and ?R = "NDArray 1 1 [[11.25 :: real]]"
  let ?c = stub_collaborators
  have wf: "wf_ndarray ?L" "wf_ndarray ?R"
    by (simp_all add: wf_ndarray_def)
  have fp: "fracpix_of ?c narrow_slits = 1"
    by (simp add: fracpix_of_def narrow_slits_fields py_int_def double_of_fracpix_150)
  have k: "kept_slits ?c True narrow_slits ?L ?R = [0]"
    by (simp add: kept_slits_def fp narrow_slits_fields spec_drop_def col_of_def median_single
        double_of_width_a)
  have a: "spec_drop double_of (real (shape1 (mstrace narrow_slits)))
      (fracignore (settings narrow_slits) * real (shape1 (mstrace narrow_slits))) True [10] [11.25]"
    by (simp add: narrow_slits_fields spec_drop_def median_single double_of_width_a)
  have b: "trim_slits ?c True narrow_slits =
       Inr (narrow_slits\<lparr>lcen := Some (NDArray 1 1 [[10]]), rcen := Some (NDArray 1 1 [[11.25]]),
              steps := steps narrow_slits @ [''_trim_slits''],
              msgs_out := msgs_out narrow_slits @ []\<rparr>)"
    using trim_slits_eq [OF narrow_slits_fields(1,2) wf, of ?c True]
    unfolding k
    by (simp add: fp narrow_slits_fields slit_msgs_def col_of_def median_single double_of_width_a)
  from a b show ?thesis ..
qed


text \<open>
  The threshold is taken from the rounded product: with a \<open>fracignore\<close> of 0.29 on 100
  columns it is 28, not 29.
\<close>

lemma fracpix_rounded_product: "py_int (double_of (double_of (29 / 100) * 100)) = 28"
proof -
  have a: "double_of (29 / 100) = 5224175567749775 / 18014398509481984"
    using double_of_binade [of "- 2" "29 / 100"]
    by (simp add: round_even_def Let_def powr_neg_numeral)
  have b: "double_of (130604389193744375 / 4503599627370496) = 8162774324609023 / 281474976710656"
    using double_of_binade [of 4 "130604389193744375 / 4503599627370496"]
    by (simp add: round_even_def Let_def powr_neg_numeral)
  show ?thesis
    by (simp add: a b py_int_def)
qed

subsection \<open>Ordering\<close>


lemma col_of_take:
  "k < length ks \<Longrightarrow> col_of (NDArray n m (map (\<lambda>r. map (\<lambda>j. r ! j) ks) rws)) k = col_of (NDArray n' m' rws) (ks ! k)"
  by (simp add: col_of_def)
















section \<open>Properties of the optical model of DEIMOS\<close>

lemma get_grating_state:
  "get_grating fs fn s = Inr (s', g) \<Longrightarrow> grating s' = g"
  by (auto simp: get_grating_def bindE_eq_Inr)

lemma reset_no_file: "reset_from_file fs nc None s = (s, None)"
  by (simp add: reset_from_file_def)

lemma reset_file_ok:
  assumes "reset_from_file fs nc (Some fn) s = (s1, None)"
  shows "(\<exists>s0 g. get_grating fs fn s0 = Inr (s1, g)) \<and> (nc \<longrightarrow> (\<exists>s0 m. get_slitmask fs fn s = Inr (s0, m)))"
  using assms
  by (auto simp: reset_from_file_def split: sum.splits prod.splits if_splits)

lemma coordinates_after_reset:
  assumes "reset_from_file fs (x = None \<and> y = None) filename s = (s1, r)"
    and "r \<noteq> None \<or> grating s1 = None \<or> (x = None \<and> y = None \<and> slitmask s1 = None)"
  shows "\<exists>e. snd (mask_to_pixel_coordinates oc fs x y wave ordr filename s) = Inl e"
proof (cases "(x = None \<and> y \<noteq> None) \<or> (x \<noteq> None \<and> y = None)")
  case True
  then show ?thesis
    by (simp add: mask_to_pixel_coordinates_def)
next
  case False
  show ?thesis
  proof (cases r)
    case (Some e)
    with False assms(1) show ?thesis
      by (simp add: mask_to_pixel_coordinates_def)
  next
    case None
    with assms(2) have c: "grating s1 = None \<or> (x = None \<and> y = None \<and> slitmask s1 = None)"
      by simp
    show ?thesis
    proof (cases "x = None \<and> y = None")
      case True
      with False None assms(1) c show ?thesis
        by (cases "slitmask s1") (auto simp: mask_to_pixel_coordinates_def)
    next
      case no: False
      with False None assms(1) c show ?thesis
        by (auto simp: mask_to_pixel_coordinates_def)
    qed
  qed
qed

text \<open>
  C5. A call of \<open>mask_to_pixel_coordinates\<close> raises, and returns no coordinates, when no
  coordinates are supplied and no slit mask is available (none stored and no file given, or
  the file given yields none), or when no grating is available (none stored and no file
  given, or the file given yields no grating: \<open>get_grating\<close> on it raises or builds
  \<open>None\<close>). This holds whatever the optical model and the detector map compute.
\<close>

theorem mask_to_pixel_coordinates_fails:
  assumes "(x = None \<and> y = None \<and>
              (case filename of None \<Rightarrow> slitmask s = None
               | Some fn \<Rightarrow> \<exists>e. get_slitmask fs fn s = Inl e))
         \<or> (case filename of None \<Rightarrow> grating s = None
             | Some fn \<Rightarrow> \<forall>s1 s2 g. get_grating fs fn s1 = Inr (s2, g) \<longrightarrow> g = None)"
  shows "\<exists>e. snd (mask_to_pixel_coordinates oc fs x y wave ordr filename s) = Inl e"
proof -
  obtain s1 r where rs: "reset_from_file fs (x = None \<and> y = None) filename s = (s1, r)"
    by (cases "reset_from_file fs (x = None \<and> y = None) filename s") auto
  have "r \<noteq> None \<or> grating s1 = None \<or> (x = None \<and> y = None \<and> slitmask s1 = None)"
  proof (cases filename)
    case None
    with rs have "s1 = s" "r = None"
      by (simp_all add: reset_no_file)
    with assms None show ?thesis
      by auto
  next
    case (Some fn)
    show ?thesis
    proof (cases r)
      case None
      from reset_file_ok [OF rs [unfolded Some None]]
      obtain s0 g where g: "get_grating fs fn s0 = Inr (s1, g)"
        and m: "x = None \<and> y = None \<longrightarrow> (\<exists>s0 m. get_slitmask fs fn s = Inr (s0, m))"
        by blast
      from assms Some m have "\<forall>s1 s2 g. get_grating fs fn s1 = Inr (s2, g) \<longrightarrow> g = None"
        by auto
      with g have "g = None" by blast
      with get_grating_state [OF g] show ?thesis
        by simp
    qed simp
  qed
  with rs show ?thesis
    by (rule coordinates_after_reset)
qed

theorem mask_to_pixel_coordinates_fails_witness:
  "grating spectrograph_init = None
   \<and> snd (mask_to_pixel_coordinates stub_optics Map.empty (Some [- 127.15775]) (Some [20.0565]) None 1 None
            spectrograph_init) = Inl no_grating_error"
proof -
  have g: "grating spectrograph_init = None"
    by (simp add: spectrograph_init_def)
  have "\<exists>e. snd (mask_to_pixel_coordinates stub_optics Map.empty (Some [- 127.15775]) (Some [20.0565])
            None 1 None spectrograph_init) = Inl e"
    by (rule mask_to_pixel_coordinates_fails) (simp add: g)
  moreover have "snd (mask_to_pixel_coordinates stub_optics Map.empty (Some [- 127.15775]) (Some [20.0565])
            None 1 None spectrograph_init) = Inl no_grating_error"
    by (simp add: mask_to_pixel_coordinates_def reset_from_file_def spectrograph_init_def)
  ultimately show ?thesis
    using g by simp
qed







end
